theory Spec2Isabelle
  imports Complex_Main "HOL-Library.AList" "HOL-Library.Word"
begin

section \<open>Python strings\<close>

text \<open>
  The module \<^verbatim>\<open>agents/snowflake_agent.py\<close> is embedded function by function.
  A Python \<^verbatim>\<open>str\<close> is a \<^typ>\<open>string\<close>; the text handled here (column names, model
  names, lines of an LLM reply) is taken to be ASCII, so a character of code 128 or
  more is neither whitespace nor a letter with a case.
\<close>

text \<open>\<^verbatim>\<open>sub in s\<close>: \<^verbatim>\<open>sub\<close> occurs in \<^verbatim>\<open>s\<close> as a contiguous run of characters.\<close>

fun starts_with :: "string \<Rightarrow> string \<Rightarrow> bool" where
  "starts_with [] s = True"
| "starts_with (a # sub) [] = False"
| "starts_with (a # sub) (c # s) = (a = c \<and> starts_with sub s)"

fun contains :: "string \<Rightarrow> string \<Rightarrow> bool" where
  "contains sub [] = (sub = [])"
| "contains sub (c # s) = (starts_with sub (c # s) \<or> contains sub s)"

text \<open>\<^verbatim>\<open>str.strip()\<close> without argument removes leading and trailing whitespace; the
  ASCII whitespace of Python is TAB, LF, VT, FF, CR, the separators FS, GS, RS, US and
  the space.\<close>

definition is_space :: "char \<Rightarrow> bool" where
  "is_space c = (let n = (of_char c :: nat) in (9 \<le> n \<and> n \<le> 13) \<or> (28 \<le> n \<and> n \<le> 32))"

definition strip :: "string \<Rightarrow> string" where
  "strip s = rev (dropWhile is_space (rev (dropWhile is_space s)))"

text \<open>\<^verbatim>\<open>str.lower()\<close> and \<^verbatim>\<open>str.upper()\<close>, character by character.\<close>

definition lower_char :: "char \<Rightarrow> char" where
  "lower_char c = (let n = (of_char c :: nat) in if 65 \<le> n \<and> n \<le> 90 then char_of (n + 32) else c)"

definition upper_char :: "char \<Rightarrow> char" where
  "upper_char c = (let n = (of_char c :: nat) in if 97 \<le> n \<and> n \<le> 122 then char_of (n - 32) else c)"

definition lower :: "string \<Rightarrow> string" where
  "lower s = map lower_char s"

definition upper :: "string \<Rightarrow> string" where
  "upper s = map upper_char s"

text \<open>\<^verbatim>\<open>s.split(sep)\<close> for a separator of one character: every occurrence cuts, so a
  text with \<open>n\<close> separators gives \<open>n + 1\<close> pieces, and the empty text gives one empty
  piece.\<close>

fun split :: "char \<Rightarrow> string \<Rightarrow> string list" where
  "split sep [] = [[]]"
| "split sep (c # s) =
     (if c = sep then [] # split sep s
      else (case split sep s of [] \<Rightarrow> [[c]] | l # ls \<Rightarrow> (c # l) # ls))"

text \<open>\<^verbatim>\<open>line.split(sep, 1)\<close> on a line that contains the separator: the text before the
  first occurrence and the text after it.\<close>

definition split_first :: "char \<Rightarrow> string \<Rightarrow> string \<times> string" where
  "split_first sep s = (takeWhile (\<lambda>c. c \<noteq> sep) s, drop 1 (dropWhile (\<lambda>c. c \<noteq> sep) s))"

section \<open>Dictionaries\<close>

text \<open>
  A Python \<^verbatim>\<open>dict\<close> with string keys is an association list in insertion order;
  \<^verbatim>\<open>d[k] = v\<close> is \<^const>\<open>AList.update\<close> (an existing key keeps its place, a new key
  goes to the end), and \<^verbatim>\<open>not d\<close> is \<open>d = []\<close>.
\<close>

type_synonym dict = "(string \<times> string) list"

text \<open>\<^verbatim>\<open>d.get(k, default)\<close>.\<close>

definition get :: "dict \<Rightarrow> string \<Rightarrow> string \<Rightarrow> string" where
  "get d k dflt = (case map_of d k of None \<Rightarrow> dflt | Some v \<Rightarrow> v)"

section \<open>LLM client selection\<close>

text \<open>
  \<^verbatim>\<open>initialize_llm\<close> returns one of four client objects; each is recorded by its class
  and the \<^verbatim>\<open>model\<close> argument it is constructed with (the temperature is 0 and the API
  key is read from the environment in every branch).
\<close>

datatype client =
    ChatAnthropic string
  | ChatGoogleGenerativeAI string
  | ChatOpenAI string
  | ChatGroq string

definition initialize_llm :: "string \<Rightarrow> client" where
  "initialize_llm model_name =
     (if contains ''claude'' model_name then ChatAnthropic model_name
      else if contains ''gemini'' model_name then ChatGoogleGenerativeAI model_name
      else if contains ''deepseek'' model_name then ChatOpenAI model_name
      else if contains ''grok'' model_name then ChatGroq model_name
      else ChatAnthropic ''claude-3-haiku-20240307'')"

section \<open>Parsing the chart specification\<close>

text \<open>
  Lines 100 to 106 of \<^verbatim>\<open>get_graph_specs_from_llm\<close>: the reply text is cut at every
  line feed, and each line that contains a colon stores \<^verbatim>\<open>specs[key.strip()] =
  value.strip()\<close>, where \<^verbatim>\<open>key, value = line.split(":", 1)\<close>.
\<close>

definition line_key :: "string \<Rightarrow> string" where
  "line_key line = strip (fst (split_first (CHR '':'') line))"

definition line_value :: "string \<Rightarrow> string" where
  "line_value line = strip (snd (split_first (CHR '':'') line))"

definition parse_line :: "dict \<Rightarrow> string \<Rightarrow> dict" where
  "parse_line specs line =
     (if contains '':'' line then AList.update (line_key line) (line_value line) specs else specs)"

definition parse_specs :: "string \<Rightarrow> dict" where
  "parse_specs response_text = foldl parse_line [] (split (CHR 0x0A) response_text)"

section \<open>Data frames\<close>

text \<open>
  A pandas \<^verbatim>\<open>DataFrame\<close> is the list of its columns in order, each with its name. A
  cell is a 64-bit float, that is a finite number, a missing value (\<^verbatim>\<open>NaN\<close>, \<^verbatim>\<open>None\<close>,
  \<^verbatim>\<open>NaT\<close>) or one of the two infinities, or a text, or a 64-bit signed integer; a
  parsed date is the number of its timestamp. A column of dtype \<^verbatim>\<open>int64\<close> holds
  integers only; where integers stand next to floats or missing values pandas has
  made the column \<^verbatim>\<open>float64\<close>, and the integers are read as floats.
\<close>

datatype cell = Num real | NaN | Str string | PInf | NInf | I64 "64 word"

type_synonym column = "cell list"

type_synonym frame = "(string \<times> column) list"

definition columns :: "frame \<Rightarrow> string list" where
  "columns df = map fst df"

text \<open>\<^verbatim>\<open>df.empty\<close>: no column, or no row (all columns have the same length).\<close>

definition empty_df :: "frame \<Rightarrow> bool" where
  "empty_df df = (case df of [] \<Rightarrow> True | (name, col) # rest \<Rightarrow> col = [])"

fun is_number :: "cell \<Rightarrow> bool" where
  "is_number (Str s) = False"
| "is_number c = True"

fun is_int64 :: "cell \<Rightarrow> bool" where
  "is_int64 (I64 w) = True"
| "is_int64 c = False"

fun is_finite_float :: "cell \<Rightarrow> bool" where
  "is_finite_float (Num v) = True"
| "is_finite_float NaN = True"
| "is_finite_float c = False"

text \<open>The finite numbers of a column, integers by their signed value.\<close>

fun number :: "cell \<Rightarrow> real option" where
  "number (Num v) = Some v"
| "number (I64 w) = Some (real_of_int (sint w))"
| "number c = None"

fun numbers :: "column \<Rightarrow> real list" where
  "numbers [] = []"
| "numbers (c # col) = (case number c of None \<Rightarrow> numbers col | Some v \<Rightarrow> v # numbers col)"

subsection \<open>Float arithmetic\<close>

text \<open>
  The operations of \<^verbatim>\<open>float64\<close> on the special values follow IEEE 754. On finite
  numbers the exact result is taken, and it becomes an infinity from
  \<open>2\<^sup>1\<^sup>0\<^sup>2\<^sup>4 - 2\<^sup>9\<^sup>7\<^sup>0\<close> on, where rounding to nearest overflows; the rounding of
  results within the range is outside the model.
\<close>

definition float_limit :: real where
  "float_limit = 2 ^ 1024 - 2 ^ 970"

definition fl :: "real \<Rightarrow> cell" where
  "fl r = (if float_limit \<le> r then PInf else if r \<le> - float_limit then NInf else Num r)"

fun to_float :: "cell \<Rightarrow> cell" where
  "to_float (I64 w) = Num (real_of_int (sint w))"
| "to_float c = c"

fun fsub :: "cell \<Rightarrow> cell \<Rightarrow> cell" where
  "fsub (Num a) (Num b) = fl (a - b)"
| "fsub (Num a) PInf = NInf"
| "fsub (Num a) NInf = PInf"
| "fsub PInf (Num b) = PInf"
| "fsub PInf NInf = PInf"
| "fsub NInf (Num b) = NInf"
| "fsub NInf PInf = NInf"
| "fsub a b = NaN"

text \<open>Division by zero is written out for completeness: the guard of the
  normalization excludes a zero divisor.\<close>

fun fdiv :: "cell \<Rightarrow> cell \<Rightarrow> cell" where
  "fdiv (Num a) (Num b) =
     (if b = 0 then (if a = 0 then NaN else if 0 < a then PInf else NInf) else fl (a / b))"
| "fdiv (Num a) PInf = Num 0"
| "fdiv (Num a) NInf = Num 0"
| "fdiv PInf (Num b) = (if b < 0 then NInf else PInf)"
| "fdiv NInf (Num b) = (if b < 0 then PInf else NInf)"
| "fdiv a b = NaN"

text \<open>\<^verbatim>\<open>Series.min()\<close> and \<^verbatim>\<open>Series.max()\<close> of a float column skip the missing values;
  on a column without any other value they return \<^verbatim>\<open>NaN\<close>.\<close>

definition col_min :: "column \<Rightarrow> cell" where
  "col_min col =
     (if NInf \<in> set col then NInf
      else (case numbers col of
              v # vs \<Rightarrow> Num (fold min vs v)
            | [] \<Rightarrow> if PInf \<in> set col then PInf else NaN))"

definition col_max :: "column \<Rightarrow> cell" where
  "col_max col =
     (if PInf \<in> set col then PInf
      else (case numbers col of
              v # vs \<Rightarrow> Num (fold max vs v)
            | [] \<Rightarrow> if NInf \<in> set col then NInf else NaN))"

subsection \<open>Integer arithmetic\<close>

text \<open>Minimum and maximum of \<^verbatim>\<open>int64\<close> values are signed; their subtraction is the
  subtraction of \<^typ>\<open>64 word\<close>, which wraps around as numpy does.\<close>

definition smin :: "64 word \<Rightarrow> 64 word \<Rightarrow> 64 word" where
  "smin a b = (if sint a \<le> sint b then a else b)"

definition smax :: "64 word \<Rightarrow> 64 word \<Rightarrow> 64 word" where
  "smax a b = (if sint a \<le> sint b then b else a)"

text \<open>The values of a column of dtype \<^verbatim>\<open>int64\<close>, \<open>None\<close> for any other column.\<close>

fun int64_values :: "column \<Rightarrow> 64 word list option" where
  "int64_values [] = Some []"
| "int64_values (I64 w # col) = map_option ((#) w) (int64_values col)"
| "int64_values (c # col) = None"

section \<open>Rendering the chart\<close>

text \<open>
  Lines 123 to 126 of \<^verbatim>\<open>create_graph_from_llm_specs\<close>, for one column:
  \<^verbatim>\<open>(df[col] - min_val) / (max_val - min_val)\<close> is computed cell by cell, under the
  guard \<^verbatim>\<open>max_val - min_val != 0\<close>. In a float column a missing value stays missing,
  and the guard is true when the difference is \<^verbatim>\<open>NaN\<close> or infinite. In an \<^verbatim>\<open>int64\<close>
  column both subtractions wrap around, and the division is the float division of the
  two integers. Subtracting texts raises \<^verbatim>\<open>TypeError\<close>: the result is \<open>None\<close>.
\<close>

definition scale :: "cell \<Rightarrow> cell \<Rightarrow> cell \<Rightarrow> cell" where
  "scale min_val max_val c = fdiv (fsub c min_val) (fsub max_val min_val)"

definition scale_int64 :: "64 word \<Rightarrow> 64 word \<Rightarrow> 64 word \<Rightarrow> cell" where
  "scale_int64 min_val max_val w =
     Num (real_of_int (sint (w - min_val)) / real_of_int (sint (max_val - min_val)))"

definition normalize_column :: "column \<Rightarrow> column option" where
  "normalize_column col =
     (if \<not> list_all is_number col then None
      else (case int64_values col of
              Some (w # ws) \<Rightarrow>
                (let min_val = fold smin ws w;
                     max_val = fold smax ws w
                 in if max_val - min_val \<noteq> 0
                    then Some (map (scale_int64 min_val max_val) (w # ws))
                    else Some col)
            | _ \<Rightarrow>
                (let floats = map to_float col;
                     min_val = col_min floats;
                     max_val = col_max floats
                 in if fsub max_val min_val \<noteq> Num 0
                    then Some (map (scale min_val max_val) floats)
                    else Some floats)))"

text \<open>
  The loop \<^verbatim>\<open>for col in df_normalized.columns\<close>, which skips the column \<^verbatim>\<open>DATE\<close>.
  Under a label that occurs more than once \<^verbatim>\<open>df_normalized[col]\<close> is a frame, its
  minimum and maximum are series, and the guard raises \<^verbatim>\<open>ValueError\<close>.
\<close>

fun normalize_loop :: "string list \<Rightarrow> frame \<Rightarrow> frame option" where
  "normalize_loop labels [] = Some []"
| "normalize_loop labels ((name, col) # rest) =
     (case (if name \<noteq> ''DATE''
            then (if 1 < count_list labels name then None else normalize_column col)
            else Some col) of
        None \<Rightarrow> None
      | Some col' \<Rightarrow>
          (case normalize_loop labels rest of
             None \<Rightarrow> None
           | Some rest' \<Rightarrow> Some ((name, col') # rest')))"

definition normalize_columns :: "frame \<Rightarrow> frame option" where
  "normalize_columns data = normalize_loop (columns data) data"

text \<open>
  \<^verbatim>\<open>pd.to_datetime(column)\<close>: the parameter \<open>parse\<close> is the date parser of pandas, which
  reads a timestamp from a text or does not. Without \<^verbatim>\<open>errors\<close> a text that is no date
  raises, and so does an infinity; with \<^verbatim>\<open>errors='coerce'\<close> they become \<^verbatim>\<open>NaT\<close>.
\<close>

fun to_datetime :: "(string \<Rightarrow> real option) \<Rightarrow> column \<Rightarrow> column option" where
  "to_datetime parse [] = Some []"
| "to_datetime parse (Str s # col) =
     (case parse s of
        None \<Rightarrow> None
      | Some t \<Rightarrow> map_option ((#) (Num t)) (to_datetime parse col))"
| "to_datetime parse (PInf # col) = None"
| "to_datetime parse (NInf # col) = None"
| "to_datetime parse (c # col) = map_option ((#) c) (to_datetime parse col)"

fun coerce :: "(string \<Rightarrow> real option) \<Rightarrow> cell \<Rightarrow> cell" where
  "coerce parse (Str s) = (case parse s of None \<Rightarrow> NaN | Some t \<Rightarrow> Num t)"
| "coerce parse PInf = NaN"
| "coerce parse NInf = NaN"
| "coerce parse c = c"

definition to_datetime_coerce :: "(string \<Rightarrow> real option) \<Rightarrow> column \<Rightarrow> column" where
  "to_datetime_coerce parse col = map (coerce parse) col"

text \<open>
  The figure that \<^verbatim>\<open>create_graph_from_llm_specs\<close> draws: which plotting call is made
  (\<^verbatim>\<open>plt.stackplot\<close> or \<^verbatim>\<open>plt.plot\<close> per column), the title and axis labels, the dates
  on the x axis and the plotted columns \<^verbatim>\<open>df_normalized.columns[1:]\<close>. Colours, legend
  labels and layout are left out.
\<close>

datatype plot = Stackplot | LinePlot

record chart =
  chart_plot :: plot
  chart_title :: string
  chart_xlabel :: string
  chart_ylabel :: string
  chart_x :: column
  chart_series :: frame

text \<open>
  \<open>Some chart\<close>: the figure is saved as \<^verbatim>\<open>llm_generated_graph.png\<close> and that path is
  returned. \<open>None\<close>: an exception was caught and \<^verbatim>\<open>None\<close> is returned. A column label
  that occurs twice makes pandas raise (the selection is then a frame, not a column).
  The calls into matplotlib are taken to succeed.
\<close>

definition create_graph_from_llm_specs ::
    "(string \<Rightarrow> real option) \<Rightarrow> frame \<Rightarrow> dict \<Rightarrow> chart option" where
  "create_graph_from_llm_specs parse data specs =
     (if ''DATE'' \<notin> set (columns data) then None
      else if \<not> distinct (columns data) then None
      else (case normalize_columns data of
              None \<Rightarrow> None
            | Some df_normalized \<Rightarrow>
                (case map_option (to_datetime parse) (map_of df_normalized ''DATE'') of
                   Some (Some x) \<Rightarrow>
                     (let graph_type = lower (get specs ''Type'' ''stacked'');
                          y_label = get specs ''Y-axis'' ''Normalized Value (0-1 scale)'';
                          title = get specs ''Title'' ''NVIDIA Financial Metrics'' @ '' (Normalized)''
                      in Some \<lparr>chart_plot = (if graph_type = ''stacked'' then Stackplot else LinePlot),
                               chart_title = title,
                               chart_xlabel = get specs ''X-axis'' ''Date'',
                               chart_ylabel = y_label,
                               chart_x = x,
                               chart_series = tl df_normalized\<rparr>)
                 | _ \<Rightarrow> None)))"

section \<open>The pipeline\<close>

text \<open>
  The LLM service is a parameter \<open>invoke\<close>: what \<^verbatim>\<open>llm.invoke(prompt)\<close> gives for a
  client and a prompt. The call raises, or returns an object without a text
  \<^verbatim>\<open>content\<close> (recorded with its \<^verbatim>\<open>str()\<close>), or returns a message with a
  text \<^verbatim>\<open>content\<close>. A prompt is recorded by the data formatted into it. Each
  function returns, next to its result, the calls it made to the service and the
  figures it saved, in order; what it prints is left out.
\<close>

datatype prompt = GraphSpecPrompt frame | AnalysisPrompt frame dict

datatype reply = Raises string | Plain string | Content string

datatype event = Invoke client prompt | SaveFig chart

text \<open>Any exception, also the \<^verbatim>\<open>ValueError\<close> raised for a reply without content,
  ends in \<^verbatim>\<open>return {}\<close>.\<close>

definition get_graph_specs_from_llm ::
    "(client \<Rightarrow> prompt \<Rightarrow> reply) \<Rightarrow> frame \<Rightarrow> string \<Rightarrow> dict \<times> event list" where
  "get_graph_specs_from_llm invoke data model_name =
     (let prompt = GraphSpecPrompt data;
          llm = initialize_llm model_name
      in (case invoke llm prompt of
            Content response_text \<Rightarrow> parse_specs response_text
          | _ \<Rightarrow> [],
          [Invoke llm prompt]))"

text \<open>
  The dictionaries returned by \<^verbatim>\<open>get_valuation_summary_with_llm_graph\<close>:
  \<^verbatim>\<open>{"error": ..., "status": "failed"}\<close> and
  \<^verbatim>\<open>{"summary": ..., "chart_path": ..., "graph_specs": ..., "status": "success"}\<close>.
\<close>

datatype summary = Failed string | Success frame string dict

fun status :: "summary \<Rightarrow> string" where
  "status (Failed e) = ''failed''"
| "status (Success s p g) = ''success''"

text \<open>\<^verbatim>\<open>df.columns = df.columns.str.upper().str.strip()\<close>.\<close>

definition rename :: "frame \<Rightarrow> frame" where
  "rename df = map (\<lambda>(name, col). (strip (upper name), col)) df"

text \<open>\<^verbatim>\<open>Series.isnull().all()\<close>.\<close>

definition isnull_all :: "column \<Rightarrow> bool" where
  "isnull_all col = list_all (\<lambda>c. c = NaN) col"

text \<open>
  Lines 198 to 212, from the result of \<^verbatim>\<open>pd.read_sql\<close> to the frame with its dates
  parsed; \<open>Inl\<close> carries the message of the exception raised. When several columns
  are named \<^verbatim>\<open>DATE\<close> after the renaming, \<^verbatim>\<open>df['DATE']\<close> is a frame and
  \<^verbatim>\<open>pd.to_datetime\<close> raises its own \<^verbatim>\<open>ValueError\<close>.
\<close>

definition fetch :: "(string \<Rightarrow> real option) \<Rightarrow> frame \<Rightarrow> string + frame" where
  "fetch parse sql_result =
     (let df = rename sql_result
      in if empty_df df then
           Inl ''No data returned from Snowflake. Ensure the table contains data.''
         else if ''DATE'' \<in> set (columns df) then
           (case filter (\<lambda>(name, col). name = ''DATE'') df of
              [(name, col)] \<Rightarrow>
                (let date = to_datetime_coerce parse col
                 in if isnull_all date then
                      Inl ''The 'DATE' column could not be parsed as datetime.''
                    else Inr (map (\<lambda>(name, col). if name = ''DATE'' then (name, date) else (name, col)) df))
            | _ \<Rightarrow> Inl ''cannot assemble with duplicate keys'')
         else Inl ''The 'DATE' column is missing from the data.'')"

definition default_specs :: dict where
  "default_specs =
     [(''Title'', ''Default Graph''),
      (''Type'', ''line''),
      (''X-axis'', ''Date''),
      (''Y-axis'', ''Value''),
      (''Additional elements'', ''grid, legend'')]"

definition get_valuation_summary_with_llm_graph ::
    "(string \<Rightarrow> real option) \<Rightarrow> (client \<Rightarrow> prompt \<Rightarrow> reply) \<Rightarrow> frame \<Rightarrow> string
       \<Rightarrow> summary \<times> event list" where
  "get_valuation_summary_with_llm_graph parse invoke sql_result model_name =
     (case fetch parse sql_result of
        Inl e \<Rightarrow> (Failed e, [])
      | Inr df \<Rightarrow>
          (let (llm_specs, events) = get_graph_specs_from_llm invoke df model_name;
               graph_specs = (if llm_specs = [] then default_specs else llm_specs)
           in (case create_graph_from_llm_specs parse df graph_specs of
                 None \<Rightarrow> (Failed ''Failed to create graph from LLM specifications.'', events)
               | Some chart \<Rightarrow>
                   (Success df ''llm_generated_graph.png'' graph_specs, events @ [SaveFig chart]))))"

text \<open>
  \<^verbatim>\<open>get_ai_analysis_with_graph\<close> returns \<^verbatim>\<open>{"status": "failed", "error": ...}\<close> or
  the analysis with the chart path, the summary and the specification. The chart path
  is \<^verbatim>\<open>llm_generated_graph.png\<close> whether or not the file is found.
\<close>

datatype analysis = AnalysisFailed string | AnalysisSuccess string string frame dict

definition get_ai_analysis_with_graph ::
    "(string \<Rightarrow> real option) \<Rightarrow> (client \<Rightarrow> prompt \<Rightarrow> reply) \<Rightarrow> frame \<Rightarrow> string
       \<Rightarrow> analysis \<times> event list" where
  "get_ai_analysis_with_graph parse invoke sql_result model_name =
     (case get_valuation_summary_with_llm_graph parse invoke sql_result model_name of
        (Failed e, events) \<Rightarrow> (AnalysisFailed e, events)
      | (Success summary chart_path graph_specs, events) \<Rightarrow>
          (let llm_prompt = AnalysisPrompt summary graph_specs;
               llm = initialize_llm model_name
           in (case invoke llm llm_prompt of
                 Raises e \<Rightarrow> AnalysisFailed (''Analysis unavailable - '' @ e)
               | Plain text \<Rightarrow> AnalysisSuccess text chart_path summary graph_specs
               | Content text \<Rightarrow> AnalysisSuccess text chart_path summary graph_specs,
               events @ [Invoke llm llm_prompt])))"

section \<open>Evaluation rules\<close>

text \<open>The defining equations that the simplifier unfolds to run the model on a
  concrete input.\<close>

lemmas string_eval = strip_def is_space_def lower_def lower_char_def upper_def upper_char_def
  split_first_def char_of_def bit_0

lemmas parse_eval = parse_specs_def parse_line_def line_key_def line_value_def string_eval

lemma float_limit_large: "1000000 < float_limit"
  by (simp add: float_limit_def)

lemma fl_Num: "- float_limit < r \<Longrightarrow> r < float_limit \<Longrightarrow> fl r = Num r"
  by (simp add: fl_def)

lemma fl_eval: "\<bar>r\<bar> \<le> 1000000 \<Longrightarrow> fl r = Num r"
  using float_limit_large by (intro fl_Num) auto

lemmas frame_eval = fl_eval Let_def normalize_columns_def normalize_column_def col_min_def col_max_def
  scale_def scale_int64_def smin_def smax_def columns_def get_def create_graph_from_llm_specs_def

lemmas pipeline_eval = fetch_def rename_def empty_df_def isnull_all_def to_datetime_coerce_def
  get_valuation_summary_with_llm_graph_def get_ai_analysis_with_graph_def
  get_graph_specs_from_llm_def default_specs_def initialize_llm_def

section \<open>Substring test and splitting\<close>

text \<open>\<^const>\<open>contains\<close> is the substring relation, and no piece of a split holds the
  separator.\<close>

lemma starts_with_iff: "starts_with sub s \<longleftrightarrow> (\<exists>q. s = sub @ q)"
  by (induction sub s rule: starts_with.induct) auto

lemma contains_iff: "contains sub s \<longleftrightarrow> (\<exists>p q. s = p @ sub @ q)"
proof (induction s)
  case Nil
  then show ?case by auto
next
  case (Cons c s)
  show ?case
  proof
    assume "contains sub (c # s)"
    then consider "starts_with sub (c # s)" | "contains sub s" by auto
    then show "\<exists>p q. c # s = p @ sub @ q"
    proof cases
      case 1
      then obtain q where "c # s = sub @ q" by (auto simp: starts_with_iff)
      then have "c # s = [] @ sub @ q" by simp
      then show ?thesis by blast
    next
      case 2
      then obtain p q where "s = p @ sub @ q" using Cons.IH by blast
      then have "c # s = (c # p) @ sub @ q" by simp
      then show ?thesis by blast
    qed
  next
    assume "\<exists>p q. c # s = p @ sub @ q"
    then obtain p q where pq: "c # s = p @ sub @ q" by blast
    show "contains sub (c # s)"
    proof (cases p)
      case Nil
      with pq have "starts_with sub (c # s)" by (auto simp: starts_with_iff)
      then show ?thesis by simp
    next
      case (Cons a p')
      with pq have "s = p' @ sub @ q" by simp
      then have "contains sub s" using Cons.IH by blast
      then show ?thesis by simp
    qed
  qed
qed

lemma contains_colon_iff: "contains '':'' line \<longleftrightarrow> CHR '':'' \<in> set line"
  by (induction line) auto

lemma split_not_Nil: "split sep s \<noteq> []"
  by (induction s) (auto split: list.splits)

lemma split_pieces: "l \<in> set (split sep s) \<Longrightarrow> sep \<notin> set l"
proof (induction s arbitrary: l)
  case Nil
  then show ?case by simp
next
  case (Cons c s)
  show ?case
  proof (cases "c = sep")
    case True
    with Cons show ?thesis by auto
  next
    case False
    obtain p ps where ps: "split sep s = p # ps"
      using split_not_Nil [of sep s] by (cases "split sep s") auto
    with False Cons.prems have "l = c # p \<or> l \<in> set ps" by auto
    moreover have "sep \<notin> set p" using Cons.IH [of p] ps by simp
    moreover have "l \<in> set ps \<Longrightarrow> sep \<notin> set l" using Cons.IH [of l] ps by simp
    ultimately show ?thesis using False by auto
  qed
qed

section \<open>Properties of the client selection\<close>

text \<open>
  C6 (amended). As written the claim fails: a name that contains both \<^verbatim>\<open>claude\<close> and
  \<^verbatim>\<open>gemini\<close> gets the Anthropic client. What holds for every model name: the
  Anthropic client with that name when it contains \<^verbatim>\<open>claude\<close>; the Gemini client when
  it contains \<^verbatim>\<open>gemini\<close> and not \<^verbatim>\<open>claude\<close>; the OpenAI-compatible client when it
  contains \<^verbatim>\<open>deepseek\<close> and neither of the two before; the Groq client when it contains
  \<^verbatim>\<open>grok\<close> and none of the three before; and the Anthropic client with the model
  \<^verbatim>\<open>claude-3-haiku-20240307\<close> when it contains none of the four.
\<close>

theorem initialize_llm_dispatch:
  "(contains ''claude'' model_name \<longrightarrow> initialize_llm model_name = ChatAnthropic model_name)
   \<and> (contains ''gemini'' model_name \<and> \<not> contains ''claude'' model_name \<longrightarrow>
        initialize_llm model_name = ChatGoogleGenerativeAI model_name)
   \<and> (contains ''deepseek'' model_name \<and> \<not> contains ''claude'' model_name
        \<and> \<not> contains ''gemini'' model_name \<longrightarrow>
        initialize_llm model_name = ChatOpenAI model_name)
   \<and> (contains ''grok'' model_name \<and> \<not> contains ''claude'' model_name
        \<and> \<not> contains ''gemini'' model_name \<and> \<not> contains ''deepseek'' model_name \<longrightarrow>
        initialize_llm model_name = ChatGroq model_name)
   \<and> (\<not> contains ''claude'' model_name \<and> \<not> contains ''gemini'' model_name
        \<and> \<not> contains ''deepseek'' model_name \<and> \<not> contains ''grok'' model_name \<longrightarrow>
        initialize_llm model_name = ChatAnthropic ''claude-3-haiku-20240307'')"
  by (simp add: initialize_llm_def)

theorem initialize_llm_dispatch_witness:
  "initialize_llm ''claude-3-opus'' = ChatAnthropic ''claude-3-opus''
   \<and> initialize_llm ''gemini-2.0-flash'' = ChatGoogleGenerativeAI ''gemini-2.0-flash''
   \<and> initialize_llm ''deepseek-chat'' = ChatOpenAI ''deepseek-chat''
   \<and> initialize_llm ''grok-2'' = ChatGroq ''grok-2''
   \<and> initialize_llm ''gpt-4o'' = ChatAnthropic ''claude-3-haiku-20240307''"
  using initialize_llm_dispatch [of "''claude-3-opus''"]
    initialize_llm_dispatch [of "''gemini-2.0-flash''"]
    initialize_llm_dispatch [of "''deepseek-chat''"]
    initialize_llm_dispatch [of "''grok-2''"]
    initialize_llm_dispatch [of "''gpt-4o''"]
  by simp

theorem claude_precedes_gemini:
  "contains ''gemini'' ''claude-gemini''
   \<and> initialize_llm ''claude-gemini'' = ChatAnthropic ''claude-gemini''
   \<and> initialize_llm ''claude-gemini'' \<noteq> ChatGoogleGenerativeAI ''claude-gemini''"
  by (simp add: initialize_llm_def)

text \<open>
  C9. The substrings are tested as they are written, in the order \<^verbatim>\<open>claude\<close>,
  \<^verbatim>\<open>gemini\<close>, \<^verbatim>\<open>deepseek\<close>, \<^verbatim>\<open>grok\<close>: a name that contains \<^verbatim>\<open>claude\<close> gets the
  Anthropic client whatever else it contains, \<^verbatim>\<open>gemini\<close> comes before \<^verbatim>\<open>deepseek\<close>
  and \<^verbatim>\<open>grok\<close>, \<^verbatim>\<open>deepseek\<close> before \<^verbatim>\<open>grok\<close>, and a name in which \<^verbatim>\<open>claude\<close> occurs
  only in another case, such as \<^verbatim>\<open>Claude\<close>, gets the default Anthropic client with the
  model \<^verbatim>\<open>claude-3-haiku-20240307\<close>.
\<close>

theorem initialize_llm_order_and_case:
  "(contains ''claude'' model_name \<longrightarrow> initialize_llm model_name = ChatAnthropic model_name)
   \<and> (\<not> contains ''claude'' model_name \<and> contains ''gemini'' model_name \<longrightarrow>
        initialize_llm model_name = ChatGoogleGenerativeAI model_name)
   \<and> (\<not> contains ''claude'' model_name \<and> \<not> contains ''gemini'' model_name
        \<and> contains ''deepseek'' model_name \<longrightarrow> initialize_llm model_name = ChatOpenAI model_name)
   \<and> (\<not> contains ''claude'' model_name \<and> \<not> contains ''gemini'' model_name
        \<and> \<not> contains ''deepseek'' model_name \<and> contains ''grok'' model_name \<longrightarrow>
        initialize_llm model_name = ChatGroq model_name)
   \<and> (contains ''claude'' (lower model_name) \<and> \<not> contains ''claude'' model_name
        \<and> \<not> contains ''gemini'' model_name \<and> \<not> contains ''deepseek'' model_name
        \<and> \<not> contains ''grok'' model_name \<longrightarrow>
        initialize_llm model_name = ChatAnthropic ''claude-3-haiku-20240307'')
   \<and> initialize_llm ''Claude'' = ChatAnthropic ''claude-3-haiku-20240307''"
  by (simp add: initialize_llm_def)

theorem initialize_llm_order_and_case_witness:
  "initialize_llm ''claude-or-gemini-or-deepseek-or-grok'' =
     ChatAnthropic ''claude-or-gemini-or-deepseek-or-grok''
   \<and> initialize_llm ''grok-deepseek-gemini'' = ChatGoogleGenerativeAI ''grok-deepseek-gemini''
   \<and> initialize_llm ''grok-deepseek'' = ChatOpenAI ''grok-deepseek''
   \<and> initialize_llm ''grok-beta'' = ChatGroq ''grok-beta''
   \<and> initialize_llm ''Claude-3-Opus'' = ChatAnthropic ''claude-3-haiku-20240307''"
  using initialize_llm_order_and_case [of "''claude-or-gemini-or-deepseek-or-grok''"]
    initialize_llm_order_and_case [of "''grok-deepseek-gemini''"]
    initialize_llm_order_and_case [of "''grok-deepseek''"]
    initialize_llm_order_and_case [of "''grok-beta''"]
    initialize_llm_order_and_case [of "''Claude-3-Opus''"]
  by (simp add: string_eval)

section \<open>Properties of the specification parser\<close>

lemma map_of_parse_line:
  "map_of (parse_line specs line) k =
     (if contains '':'' line \<and> line_key line = k then Some (line_value line) else map_of specs k)"
  by (simp add: parse_line_def update_conv')

lemma map_of_foldl_parse_line:
  "map_of (foldl parse_line specs ls) k =
     (let same = filter (\<lambda>l. contains '':'' l \<and> line_key l = k) ls
      in if same = [] then map_of specs k else Some (line_value (last same)))"
  by (induction ls rule: rev_induct) (simp_all add: map_of_parse_line Let_def)

lemma keys_foldl_parse_line:
  "fst ` set (foldl parse_line specs ls) =
     fst ` set specs \<union> line_key ` {l \<in> set ls. contains '':'' l}"
proof (induction ls rule: rev_induct)
  case Nil
  then show ?case by simp
next
  case (snoc l ls)
  then show ?case
    by (auto simp: parse_line_def dom_update)
qed

lemma foldl_parse_line_filter:
  "foldl parse_line specs ls = foldl parse_line specs (filter (contains '':'') ls)"
  by (induction ls arbitrary: specs) (simp_all add: parse_line_def)

lemma filter_last_index:
  assumes "i < length ls" "P (ls ! i)" "\<forall>j. i < j \<and> j < length ls \<longrightarrow> \<not> P (ls ! j)"
  shows "filter P ls \<noteq> [] \<and> last (filter P ls) = ls ! i"
proof -
  have ls: "ls = take i ls @ (ls ! i) # drop (Suc i) ls"
    using assms(1) by (simp add: id_take_nth_drop)
  have "\<forall>x \<in> set (drop (Suc i) ls). \<not> P x"
  proof
    fix x assume "x \<in> set (drop (Suc i) ls)"
    then obtain n where n: "n < length (drop (Suc i) ls)" "x = drop (Suc i) ls ! n"
      by (auto simp: in_set_conv_nth)
    then have "x = ls ! (Suc i + n)" using assms(1) by simp
    moreover have "i < Suc i + n \<and> Suc i + n < length ls" using n(1) by auto
    ultimately show "\<not> P x" using assms(3) by blast
  qed
  then have "filter P (drop (Suc i) ls) = []" by (simp add: filter_empty_conv)
  then have "filter P ls = filter P (take i ls) @ [ls ! i]"
    using assms(2) by (subst ls) simp
  then show ?thesis by simp
qed

text \<open>
  C10. When the same trimmed key stands before the first colon on more than one line
  with a colon, the mapping binds that key to the trimmed remainder of the last of
  these lines.
\<close>

theorem parse_specs_last_line_wins:
  assumes "same = filter (\<lambda>l. contains '':'' l \<and> line_key l = k) (split (CHR 0x0A) response_text)"
    and "1 < length same"
  shows "map_of (parse_specs response_text) k = Some (line_value (last same))"
proof -
  from assms have "same \<noteq> []" by auto
  with assms(1) show ?thesis
    by (simp add: parse_specs_def map_of_foldl_parse_line Let_def)
qed

theorem parse_specs_last_line_wins_witness:
  "filter (\<lambda>l. contains '':'' l \<and> line_key l = ''Type'')
       (split (CHR 0x0A) ''Type: bar\<newline>Title: T\<newline>Type : line'') = [''Type: bar'', ''Type : line'']
   \<and> map_of (parse_specs ''Type: bar\<newline>Title: T\<newline>Type : line'') ''Type'' = Some ''line''"
  using parse_specs_last_line_wins [of "[''Type: bar'', ''Type : line'']" "''Type''"
      "''Type: bar\<newline>Title: T\<newline>Type : line''"]
  by (simp add: parse_eval)

text \<open>
  C4 (amended). As written the claim fails for a line whose key comes again on a later
  line with a colon: the mapping then holds the later value. What holds for every reply
  text: the keys of the mapping are exactly the trimmed texts before the first colon of
  the lines with a colon; lines without a colon contribute nothing (parsing only the
  lines with a colon gives the same mapping); each line with a colon has its key bound
  to the trimmed remainder of that line or of a later line with the same key; and it is
  bound to the trimmed remainder of that very line when no later line with a colon has
  the same key.
\<close>

theorem parse_specs_entries:
  assumes "ls = split (CHR 0x0A) response_text"
  shows "fst ` set (parse_specs response_text) = line_key ` {l \<in> set ls. contains '':'' l}
    \<and> parse_specs response_text = foldl parse_line [] (filter (contains '':'') ls)
    \<and> (\<forall>i < length ls. contains '':'' (ls ! i) \<longrightarrow>
          (\<exists>j. i \<le> j \<and> j < length ls \<and> contains '':'' (ls ! j) \<and> line_key (ls ! j) = line_key (ls ! i)
             \<and> map_of (parse_specs response_text) (line_key (ls ! i)) = Some (line_value (ls ! j))))
    \<and> (\<forall>i < length ls. contains '':'' (ls ! i)
          \<and> (\<forall>j. i < j \<and> j < length ls \<and> contains '':'' (ls ! j) \<longrightarrow> line_key (ls ! j) \<noteq> line_key (ls ! i))
          \<longrightarrow> map_of (parse_specs response_text) (line_key (ls ! i)) = Some (line_value (ls ! i)))"
proof -
  let ?m = "map_of (parse_specs response_text)"
  have keys: "fst ` set (parse_specs response_text) = line_key ` {l \<in> set ls. contains '':'' l}"
    by (simp add: parse_specs_def keys_foldl_parse_line assms)
  have filt: "parse_specs response_text = foldl parse_line [] (filter (contains '':'') ls)"
    unfolding parse_specs_def assms by (rule foldl_parse_line_filter)
  have some: "\<exists>j. i \<le> j \<and> j < length ls \<and> contains '':'' (ls ! j) \<and> line_key (ls ! j) = line_key (ls ! i)
             \<and> ?m (line_key (ls ! i)) = Some (line_value (ls ! j))"
    if i: "i < length ls" "contains '':'' (ls ! i)" for i
  proof -
    let ?P = "\<lambda>l. contains '':'' l \<and> line_key l = line_key (ls ! i)"
    let ?J = "{j. j < length ls \<and> ?P (ls ! j)}"
    have fin: "finite ?J" by simp
    have iJ: "i \<in> ?J" using i by simp
    define j where "j = Max ?J"
    have jJ: "j \<in> ?J" unfolding j_def using fin iJ by (intro Max_in) auto
    have ij: "i \<le> j" unfolding j_def using fin iJ by (intro Max_ge) auto
    have later: "\<forall>n. j < n \<and> n < length ls \<longrightarrow> \<not> ?P (ls ! n)"
    proof (intro allI impI notI)
      fix n assume n: "j < n \<and> n < length ls" and "?P (ls ! n)"
      then have "n \<in> ?J" by simp
      then have "n \<le> j" unfolding j_def using fin by (intro Max_ge) auto
      with n show False by simp
    qed
    from jJ have "j < length ls" "?P (ls ! j)" by auto
    from filter_last_index [of j ls ?P, OF this later]
    have "?m (line_key (ls ! i)) = Some (line_value (ls ! j))"
      by (simp add: parse_specs_def map_of_foldl_parse_line Let_def assms [symmetric])
    with jJ ij show ?thesis by auto
  qed
  have last: "?m (line_key (ls ! i)) = Some (line_value (ls ! i))"
    if i: "i < length ls" "contains '':'' (ls ! i)"
      and no: "\<forall>j. i < j \<and> j < length ls \<and> contains '':'' (ls ! j) \<longrightarrow> line_key (ls ! j) \<noteq> line_key (ls ! i)"
    for i
  proof -
    let ?P = "\<lambda>l. contains '':'' l \<and> line_key l = line_key (ls ! i)"
    have "\<forall>j. i < j \<and> j < length ls \<longrightarrow> \<not> ?P (ls ! j)" using no by blast
    from filter_last_index [of i ls ?P, OF i(1) _ this] i(2)
    show ?thesis
      by (simp add: parse_specs_def map_of_foldl_parse_line Let_def assms [symmetric])
  qed
  from keys filt some last show ?thesis by blast
qed

theorem parse_specs_entries_witness:
  "split (CHR 0x0A) ''Type: bar\<newline>no colon here\<newline> Title : A: b '' =
     [''Type: bar'', ''no colon here'', '' Title : A: b '']
   \<and> parse_specs ''Type: bar\<newline>no colon here\<newline> Title : A: b '' =
     [(''Type'', ''bar''), (''Title'', ''A: b'')]
   \<and> map_of (parse_specs ''Type: bar\<newline>no colon here\<newline> Title : A: b '') ''Title'' = Some ''A: b''
   \<and> map_of (parse_specs ''Type: bar\<newline>no colon here\<newline> Title : A: b '') ''Type'' = Some ''bar''"
  using parse_specs_entries [of "[''Type: bar'', ''no colon here'', '' Title : A: b '']"
      "''Type: bar\<newline>no colon here\<newline> Title : A: b ''"]
  by (simp add: parse_eval)

theorem overwritten_line_has_no_entry:
  "contains '':'' ''Type: bar''
   \<and> ''Type: bar'' \<in> set (split (CHR 0x0A) ''Type: bar\<newline>Type: line'')
   \<and> map_of (parse_specs ''Type: bar\<newline>Type: line'') (line_key ''Type: bar'') = Some ''line''
   \<and> line_value ''Type: bar'' = ''bar''
   \<and> map_of (parse_specs ''Type: bar\<newline>Type: line'') (line_key ''Type: bar'')
        \<noteq> Some (line_value ''Type: bar'')"
  by (simp add: parse_eval)

section \<open>Properties of the normalization\<close>

lemma set_numbers: "set (numbers col) = {v. \<exists>c \<in> set col. number c = Some v}"
  by (induction col) (auto split: option.splits)

lemma fold_min_Min: "fold min vs (v::real) = Min (set (v # vs))"
  by (rule Min.set_eq_fold [symmetric])

lemma fold_max_Max: "fold max vs (v::real) = Max (set (v # vs))"
  by (rule Max.set_eq_fold [symmetric])

lemma Min_numbers:
  assumes "numbers col \<noteq> []"
  shows "Min (set (numbers col)) \<in> set (numbers col)"
    and "v \<in> set (numbers col) \<Longrightarrow> Min (set (numbers col)) \<le> v"
  using assms by auto

lemma Max_numbers:
  assumes "numbers col \<noteq> []"
  shows "Max (set (numbers col)) \<in> set (numbers col)"
    and "v \<in> set (numbers col) \<Longrightarrow> v \<le> Max (set (numbers col))"
  using assms by auto

lemma float_limit_pos: "0 < float_limit" "1 < float_limit"
  using float_limit_large by simp_all

subsection \<open>Float columns of finite values\<close>

lemma finite_float_cases:
  assumes "list_all is_finite_float col" "c \<in> set col"
  shows "c = NaN \<or> (\<exists>v. c = Num v)"
  using assms by (cases c) (auto simp: list_all_iff)

lemma finite_float_to_float: "list_all is_finite_float col \<Longrightarrow> map to_float col = col"
proof (induction col)
  case Nil
  then show ?case by simp
next
  case (Cons c col)
  then show ?case by (cases c) auto
qed

lemma finite_float_not_int64:
  "list_all is_finite_float col \<Longrightarrow> int64_values col = (if col = [] then Some [] else None)"
  by (cases col; cases "hd col") auto

lemma finite_float_is_number: "list_all is_finite_float col \<Longrightarrow> list_all is_number col"
  by (induction col) (auto elim: is_finite_float.elims)

lemma finite_float_col_min:
  assumes "list_all is_finite_float col" "numbers col \<noteq> []"
  shows "col_min col = Num (Min (set (numbers col)))"
proof -
  have "NInf \<notin> set col" using finite_float_cases [OF assms(1)] by auto
  moreover obtain v vs where "numbers col = v # vs" using assms(2) by (cases "numbers col") auto
  ultimately show ?thesis by (simp add: col_min_def fold_min_Min)
qed

lemma finite_float_col_max:
  assumes "list_all is_finite_float col" "numbers col \<noteq> []"
  shows "col_max col = Num (Max (set (numbers col)))"
proof -
  have "PInf \<notin> set col" using finite_float_cases [OF assms(1)] by auto
  moreover obtain v vs where "numbers col = v # vs" using assms(2) by (cases "numbers col") auto
  ultimately show ?thesis by (simp add: col_max_def fold_max_Max)
qed



lemma constant_finite_float_column:
  assumes "list_all is_finite_float col" "numbers col \<noteq> []"
    and "Max (set (numbers col)) = Min (set (numbers col))"
  shows "normalize_column col = Some col"
proof -
  have ne: "col \<noteq> []" using assms(2) by auto
  have "col_min col = Num (Min (set (numbers col)))" "col_max col = Num (Min (set (numbers col)))"
    using assms by (simp_all add: finite_float_col_min finite_float_col_max)
  moreover have "fl 0 = Num 0" using float_limit_pos by (intro fl_Num) auto
  ultimately show ?thesis
    using assms(1) ne
    by (simp add: normalize_column_def finite_float_to_float finite_float_not_int64
        finite_float_is_number Let_def)
qed

subsection \<open>Integer columns\<close>

lemma fold_smin:
  "fold smin ws w \<in> set (w # ws) \<and> (\<forall>x \<in> set (w # ws). sint (fold smin ws w) \<le> sint x)"
proof (induction ws arbitrary: w)
  case Nil
  then show ?case by simp
next
  case (Cons a ws)
  from Cons [of "smin a w"] show ?case
    by (auto simp: smin_def split: if_splits)
qed

lemma fold_smax:
  "fold smax ws w \<in> set (w # ws) \<and> (\<forall>x \<in> set (w # ws). sint x \<le> sint (fold smax ws w))"
proof (induction ws arbitrary: w)
  case Nil
  then show ?case by simp
next
  case (Cons a ws)
  from Cons [of "smax a w"] show ?case
    by (auto simp: smax_def split: if_splits)
qed


lemma int64_column:
  assumes "list_all is_int64 col"
  shows "int64_values col = Some (map (\<lambda>c. case c of I64 w \<Rightarrow> w | _ \<Rightarrow> 0) col)
       \<and> col = map I64 (map (\<lambda>c. case c of I64 w \<Rightarrow> w | _ \<Rightarrow> 0) col)"
  using assms
proof (induction col)
  case Nil
  then show ?case by simp
next
  case (Cons c col)
  then show ?case by (cases c) auto
qed

lemma numbers_map_I64: "numbers (map I64 ws) = map (\<lambda>w. real_of_int (sint w)) ws"
  by (induction ws) auto

lemma int64_is_number: "list_all is_number (map I64 ws)"
  by (induction ws) auto

lemma int64_values_map_I64: "int64_values (map I64 ws) = Some ws"
  by (induction ws) auto

lemma Min_int64:
  "Min (set (numbers (map I64 (w # ws)))) = real_of_int (sint (fold smin ws w))"
proof (rule Min_eqI)
  show "finite (set (numbers (map I64 (w # ws))))" by simp
next
  fix y assume "y \<in> set (numbers (map I64 (w # ws)))"
  then obtain x where "x \<in> set (w # ws)" "y = real_of_int (sint x)"
    unfolding numbers_map_I64 by (auto simp del: of_int_sint)
  with fold_smin [of ws w] show "real_of_int (sint (fold smin ws w)) \<le> y"
    by (auto simp del: of_int_sint)
next
  from fold_smin [of ws w] show "real_of_int (sint (fold smin ws w)) \<in> set (numbers (map I64 (w # ws)))"
    unfolding numbers_map_I64 by (auto simp del: of_int_sint)
qed

lemma Max_int64:
  "Max (set (numbers (map I64 (w # ws)))) = real_of_int (sint (fold smax ws w))"
proof (rule Max_eqI)
  show "finite (set (numbers (map I64 (w # ws))))" by simp
next
  fix y assume "y \<in> set (numbers (map I64 (w # ws)))"
  then obtain x where "x \<in> set (w # ws)" "y = real_of_int (sint x)"
    unfolding numbers_map_I64 by (auto simp del: of_int_sint)
  with fold_smax [of ws w] show "y \<le> real_of_int (sint (fold smax ws w))"
    by (auto simp del: of_int_sint)
next
  from fold_smax [of ws w] show "real_of_int (sint (fold smax ws w)) \<in> set (numbers (map I64 (w # ws)))"
    unfolding numbers_map_I64 by (auto simp del: of_int_sint)
qed


lemma constant_int64_column:
  assumes "list_all is_int64 col" "numbers col \<noteq> []"
    and "Max (set (numbers col)) = Min (set (numbers col))"
  shows "normalize_column col = Some col"
proof -
  from int64_column [OF assms(1)] obtain vs where vs: "col = map I64 vs" by blast
  with assms(2) obtain w ws where ws: "vs = w # ws" by (cases vs) auto
  from assms(3) have "real_of_int (sint (fold smax ws w)) = real_of_int (sint (fold smin ws w))"
    unfolding vs ws by (simp only: Min_int64 Max_int64)
  then have "sint (fold smax ws w) = sint (fold smin ws w)"
    by (simp only: of_int_eq_iff)
  then have "fold smax ws w = fold smin ws w" by (rule signed_word_eqI)
  then show ?thesis unfolding vs ws
    by (simp add: normalize_column_def int64_is_number int64_values_map_I64 Let_def
        del: list.map)
qed

subsection \<open>The loop\<close>

lemma normalize_loop_nth:
  assumes "normalize_loop labels df = Some df'" "i < length df" "df ! i = (name, col)"
    "name \<noteq> ''DATE''"
  shows "\<exists>col'. normalize_column col = Some col' \<and> df' ! i = (name, col')"
  using assms
proof (induction df arbitrary: df' i)
  case Nil
  then show ?case by simp
next
  case (Cons p df)
  obtain n c where p: "p = (n, c)" by (cases p)
  from Cons.prems(1) obtain c' rest' where
    c: "(if n \<noteq> ''DATE'' then (if 1 < count_list labels n then None else normalize_column c)
         else Some c) = Some c'"
    and r: "normalize_loop labels df = Some rest'" and d: "df' = (n, c') # rest'"
    unfolding p by (auto split: option.splits)
  show ?case
  proof (cases i)
    case 0
    with Cons.prems(3,4) c d show ?thesis unfolding p by (auto split: if_splits)
  next
    case (Suc k)
    with Cons.prems(2,3) have "k < length df" "df ! k = (name, col)" by simp_all
    from Cons.IH [OF r this Cons.prems(4)] show ?thesis unfolding d Suc by simp
  qed
qed

lemma create_graph_series:
  assumes "create_graph_from_llm_specs parse data specs = Some chart"
  shows "\<exists>df_normalized. normalize_columns data = Some df_normalized
           \<and> chart_series chart = tl df_normalized"
  using assms
  by (auto simp: create_graph_from_llm_specs_def Let_def split: if_splits option.splits)

lemma rendered_column:
  assumes "create_graph_from_llm_specs parse data specs = Some chart"
    and "i < length data" and "data ! i = (name, col)" and "name \<noteq> ''DATE''"
  shows "\<exists>df_normalized col'. normalize_columns data = Some df_normalized
           \<and> chart_series chart = tl df_normalized
           \<and> normalize_column col = Some col' \<and> df_normalized ! i = (name, col')"
proof -
  from create_graph_series [OF assms(1)] obtain df_normalized where
    n: "normalize_columns data = Some df_normalized" "chart_series chart = tl df_normalized"
    by blast
  from n(1) have "normalize_loop (columns data) data = Some df_normalized"
    by (simp add: normalize_columns_def)
  from normalize_loop_nth [OF this assms(2,3,4)] n show ?thesis by blast
qed

subsection \<open>Columns outside the two theorems\<close>

text \<open>A column of one infinite value has equal maximum and minimum; their difference
  is \<^verbatim>\<open>NaN\<close>, the guard holds and the column becomes \<^verbatim>\<open>NaN\<close>. A label that
  occurs twice stops the loop.\<close>

lemma constant_infinite_column: "normalize_column [PInf, PInf] = Some [NaN, NaN]"
  by (simp add: frame_eval)

lemma repeated_label_fails:
  "normalize_columns [(''DATE'', [Num 1, Num 2]), (''A'', [Num 5, Num 5]), (''A'', [Num 5, Num 5])] = None"
  by (simp add: frame_eval)

subsection \<open>The claims\<close>




text \<open>
  C1 (amended). As written the claim fails: a column whose maximum equals its minimum
  is skipped by the guard \<^verbatim>\<open>max_val - min_val != 0\<close> and keeps its values, which are 0
  only when the column was 0 before. What holds: take a frame with which a chart is
  rendered, and in it a column other than \<^verbatim>\<open>DATE\<close> that holds \<^verbatim>\<open>int64\<close> values, or
  finite floats and missing values, and whose maximum equals its minimum. This column
  is the same in the normalized frame, from which the chart is plotted, as before, and
  each of its numbers equals the common minimum and maximum.
\<close>

theorem zero_range_column_unchanged:
  assumes "create_graph_from_llm_specs parse data specs = Some chart"
    and "i < length data" and "data ! i = (name, col)" and "name \<noteq> ''DATE''"
    and "numbers col \<noteq> []"
    and "min_val = Min (set (numbers col))" and "max_val = Max (set (numbers col))"
    and "max_val = min_val"
    and "list_all is_int64 col \<or> list_all is_finite_float col"
  shows "\<exists>df_normalized. normalize_columns data = Some df_normalized
      \<and> chart_series chart = tl df_normalized
      \<and> df_normalized ! i = (name, col)
      \<and> (\<forall>j < length col. \<forall>v. number (col ! j) = Some v \<longrightarrow> v = min_val)"
proof -
  have eq: "Max (set (numbers col)) = Min (set (numbers col))"
    using assms(6,7,8) by simp
  have col: "normalize_column col = Some col"
    using assms(9)
  proof
    assume "list_all is_int64 col"
    then show ?thesis using assms(5) eq by (rule constant_int64_column)
  next
    assume "list_all is_finite_float col"
    then show ?thesis using assms(5) eq by (rule constant_finite_float_column)
  qed
  from rendered_column [OF assms(1,2,3,4)] col obtain df_normalized where
    n: "normalize_columns data = Some df_normalized" "chart_series chart = tl df_normalized"
      "df_normalized ! i = (name, col)"
    by auto
  have "\<forall>j < length col. \<forall>v. number (col ! j) = Some v \<longrightarrow> v = min_val"
  proof (intro allI impI)
    fix j v assume "j < length col" "number (col ! j) = Some v"
    then have "v \<in> set (numbers col)" by (auto simp: set_numbers)
    then have "Min (set (numbers col)) \<le> v" "v \<le> Max (set (numbers col))"
      using assms(5) by (simp_all add: Min_numbers(2) Max_numbers(2))
    with eq assms(6) show "v = min_val" by simp
  qed
  with n show ?thesis by blast
qed

theorem zero_range_column_unchanged_witness:
  "create_graph_from_llm_specs (map_of [])
      [(''DATE'', [Num 1, Num 2]), (''PE_RATIO'', [Num 5, Num 5]), (''SPLITS'', [I64 4, I64 4])] [] =
     Some \<lparr>chart_plot = Stackplot, chart_title = ''NVIDIA Financial Metrics (Normalized)'',
       chart_xlabel = ''Date'', chart_ylabel = ''Normalized Value (0-1 scale)'',
       chart_x = [Num 1, Num 2],
       chart_series = [(''PE_RATIO'', [Num 5, Num 5]), (''SPLITS'', [I64 4, I64 4])]\<rparr>
   \<and> normalize_columns
      [(''DATE'', [Num 1, Num 2]), (''PE_RATIO'', [Num 5, Num 5]), (''SPLITS'', [I64 4, I64 4])] =
     Some [(''DATE'', [Num 1, Num 2]), (''PE_RATIO'', [Num 5, Num 5]), (''SPLITS'', [I64 4, I64 4])]"
proof -
  let ?data = "[(''DATE'', [Num 1, Num 2]), (''PE_RATIO'', [Num 5, Num 5]),
       (''SPLITS'', [I64 4, I64 4])]"
  let ?chart = "\<lparr>chart_plot = Stackplot, chart_title = ''NVIDIA Financial Metrics (Normalized)'',
       chart_xlabel = ''Date'', chart_ylabel = ''Normalized Value (0-1 scale)'',
       chart_x = [Num 1, Num 2],
       chart_series = [(''PE_RATIO'', [Num 5, Num 5]), (''SPLITS'', [I64 4, I64 4])]\<rparr>"
  have rendered: "create_graph_from_llm_specs (map_of []) ?data [] = Some ?chart"
    by (simp add: frame_eval string_eval)
  have normalized: "normalize_columns ?data = Some ?data"
    by (simp add: frame_eval)
  have float_col: "1 < length ?data" "?data ! 1 = (''PE_RATIO'', [Num 5, Num 5])"
    "''PE_RATIO'' \<noteq> ''DATE''" "numbers [Num 5, Num 5] \<noteq> []"
    "5 = Min (set (numbers [Num 5, Num 5]))" "5 = Max (set (numbers [Num 5, Num 5]))"
    "(5::real) = 5" "list_all is_int64 [Num 5, Num 5] \<or> list_all is_finite_float [Num 5, Num 5]"
    by simp_all
  have int_col: "2 < length ?data" "?data ! 2 = (''SPLITS'', [I64 4, I64 4])"
    "''SPLITS'' \<noteq> ''DATE''" "numbers [I64 4, I64 4] \<noteq> []"
    "4 = Min (set (numbers [I64 4, I64 4]))" "4 = Max (set (numbers [I64 4, I64 4]))"
    "(4::real) = 4" "list_all is_int64 [I64 4, I64 4] \<or> list_all is_finite_float [I64 4, I64 4]"
    by simp_all
  from zero_range_column_unchanged [OF rendered float_col]
  obtain df_float where "normalize_columns ?data = Some df_float" by blast
  moreover from zero_range_column_unchanged [OF rendered int_col]
  obtain df_int where "normalize_columns ?data = Some df_int" by blast
  ultimately show ?thesis using rendered normalized by simp
qed

theorem zero_range_column_not_zero:
  "col_max [Num 5, Num 5] = col_min [Num 5, Num 5]
   \<and> map_option chart_series (create_graph_from_llm_specs (map_of [])
        [(''DATE'', [Num 1, Num 2]), (''PE_RATIO'', [Num 5, Num 5])] []) =
      Some [(''PE_RATIO'', [Num 5, Num 5])]
   \<and> Num 5 \<noteq> Num 0"
  by (simp add: frame_eval)

section \<open>Properties of the chart\<close>

text \<open>Whenever a chart is produced, its plotting call and its texts are read off the
  specification as follows.\<close>

lemma chart_of_specs:
  assumes "create_graph_from_llm_specs parse data specs = Some chart"
  shows "chart_plot chart =
           (if lower (get specs ''Type'' ''stacked'') = ''stacked'' then Stackplot else LinePlot)
       \<and> chart_title chart = get specs ''Title'' ''NVIDIA Financial Metrics'' @ '' (Normalized)''
       \<and> chart_xlabel chart = get specs ''X-axis'' ''Date''
       \<and> chart_ylabel chart = get specs ''Y-axis'' ''Normalized Value (0-1 scale)''"
  using assms
  by (auto simp: create_graph_from_llm_specs_def Let_def split: if_splits option.splits)

text \<open>
  C2 (amended). As written the claim fails for a mapping without the key \<^verbatim>\<open>Type\<close>:
  the default of the lookup is \<^verbatim>\<open>"stacked"\<close>, so the stacked-area path is taken. What
  holds for every chart that is rendered: the stacked-area path is taken if and only if
  the key \<^verbatim>\<open>Type\<close> is absent or its value, lowercased, equals \<^verbatim>\<open>"stacked"\<close>; the
  line-plot path is taken if and only if the key is present with any other value.
\<close>

theorem chart_type_selection:
  assumes "create_graph_from_llm_specs parse data specs = Some chart"
  shows "(chart_plot chart = Stackplot \<longleftrightarrow>
            map_of specs ''Type'' = None
            \<or> (\<exists>v. map_of specs ''Type'' = Some v \<and> lower v = ''stacked''))
       \<and> (chart_plot chart = LinePlot \<longleftrightarrow>
            (\<exists>v. map_of specs ''Type'' = Some v \<and> lower v \<noteq> ''stacked''))"
proof (cases "map_of specs ''Type''")
  case None
  then have "get specs ''Type'' ''stacked'' = ''stacked''" by (simp add: get_def)
  moreover have "lower ''stacked'' = ''stacked''" by (simp add: lower_def lower_char_def)
  ultimately show ?thesis using chart_of_specs [OF assms] None by simp
next
  case (Some v)
  then have "get specs ''Type'' ''stacked'' = v" by (simp add: get_def)
  then show ?thesis using chart_of_specs [OF assms] Some by simp
qed

theorem chart_type_selection_witness:
  "map_option chart_plot (create_graph_from_llm_specs (map_of [])
        [(''DATE'', [Num 1, Num 2]), (''PE_RATIO'', [Num 5, Num 7])] [(''Type'', ''Stacked'')]) = Some Stackplot
   \<and> map_option chart_plot (create_graph_from_llm_specs (map_of [])
        [(''DATE'', [Num 1, Num 2]), (''PE_RATIO'', [Num 5, Num 7])] [(''Type'', ''bar'')]) = Some LinePlot"
  using chart_type_selection [of "map_of []" "[(''DATE'', [Num 1, Num 2]), (''PE_RATIO'', [Num 5, Num 7])]"
      "[(''Type'', ''Stacked'')]"]
    chart_type_selection [of "map_of []" "[(''DATE'', [Num 1, Num 2]), (''PE_RATIO'', [Num 5, Num 7])]"
      "[(''Type'', ''bar'')]"]
  by (simp add: frame_eval string_eval)

theorem absent_type_is_stacked:
  "map_of ([] :: dict) ''Type'' = None
   \<and> map_option chart_plot (create_graph_from_llm_specs (map_of [])
        [(''DATE'', [Num 1, Num 2]), (''PE_RATIO'', [Num 5, Num 7])] []) = Some Stackplot"
  by (simp add: frame_eval string_eval)

text \<open>
  C7 (amended). As written the claim fails for the title: the renderer appends
  \<^verbatim>\<open>" (Normalized)"\<close> to the title it looks up. What holds for every chart that is
  rendered: without the key \<^verbatim>\<open>Title\<close> the title is
  \<^verbatim>\<open>"NVIDIA Financial Metrics (Normalized)"\<close>, without the key \<^verbatim>\<open>X-axis\<close> the x-axis
  label is \<^verbatim>\<open>"Date"\<close>, and without the key \<^verbatim>\<open>Y-axis\<close> the y-axis label is
  \<^verbatim>\<open>"Normalized Value (0-1 scale)"\<close>.
\<close>

theorem chart_label_fallbacks:
  assumes "create_graph_from_llm_specs parse data specs = Some chart"
  shows "(map_of specs ''Title'' = None \<longrightarrow>
            chart_title chart = ''NVIDIA Financial Metrics (Normalized)'')
       \<and> (map_of specs ''X-axis'' = None \<longrightarrow> chart_xlabel chart = ''Date'')
       \<and> (map_of specs ''Y-axis'' = None \<longrightarrow>
            chart_ylabel chart = ''Normalized Value (0-1 scale)'')"
  using chart_of_specs [OF assms] by (simp add: get_def)

theorem chart_label_fallbacks_witness:
  "map_option (\<lambda>c. (chart_title c, chart_xlabel c, chart_ylabel c))
     (create_graph_from_llm_specs (map_of [])
        [(''DATE'', [Num 1, Num 2]), (''PE_RATIO'', [Num 5, Num 7])] [(''Type'', ''line'')]) =
   Some (''NVIDIA Financial Metrics (Normalized)'', ''Date'', ''Normalized Value (0-1 scale)'')"
  using chart_label_fallbacks [of "map_of []" "[(''DATE'', [Num 1, Num 2]), (''PE_RATIO'', [Num 5, Num 7])]"
      "[(''Type'', ''line'')]"]
  by (simp add: frame_eval string_eval)

theorem fallback_title_has_suffix:
  "map_of ([] :: dict) ''Title'' = None
   \<and> map_option chart_title (create_graph_from_llm_specs (map_of [])
        [(''DATE'', [Num 1, Num 2]), (''PE_RATIO'', [Num 5, Num 7])] []) =
      Some ''NVIDIA Financial Metrics (Normalized)''
   \<and> ''NVIDIA Financial Metrics (Normalized)'' \<noteq> ''NVIDIA Financial Metrics''"
  by (simp add: frame_eval string_eval)

section \<open>Properties of the pipeline\<close>

lemma fetch_Inl:
  assumes "df = rename sql_result"
    and "empty_df df \<or> ''DATE'' \<notin> set (columns df)
         \<or> (\<forall>p \<in> set df. fst p = ''DATE'' \<longrightarrow> isnull_all (to_datetime_coerce parse (snd p)))"
  shows "fetch parse sql_result = Inl
       (if empty_df df then ''No data returned from Snowflake. Ensure the table contains data.''
        else if ''DATE'' \<notin> set (columns df) then ''The 'DATE' column is missing from the data.''
        else if length (filter (\<lambda>(name, col). name = ''DATE'') df) = 1
          then ''The 'DATE' column could not be parsed as datetime.''
        else ''cannot assemble with duplicate keys'')"
proof (cases "empty_df df \<or> ''DATE'' \<notin> set (columns df)")
  case True
  then show ?thesis using assms(1) by (auto simp: fetch_def Let_def)
next
  case False
  with assms(2) have nulls:
    "\<forall>p \<in> set df. fst p = ''DATE'' \<longrightarrow> isnull_all (to_datetime_coerce parse (snd p))" by blast
  let ?dates = "filter (\<lambda>(name, col). name = ''DATE'') df"
  show ?thesis
  proof (cases "length ?dates = 1")
    case True
    then obtain p where p: "?dates = [p]" by (cases ?dates) auto
    then have "p \<in> set ?dates" by simp
    then have "p \<in> set df" "fst p = ''DATE''" by auto
    with nulls have "isnull_all (to_datetime_coerce parse (snd p))" by blast
    with False p True show ?thesis
      unfolding fetch_def Let_def assms(1) [symmetric] by (cases p) simp
  next
    case ne: False
    then have "fetch parse sql_result = Inl ''cannot assemble with duplicate keys''"
      using False unfolding fetch_def Let_def assms(1) [symmetric]
      by (cases ?dates rule: list.exhaust; cases "tl ?dates") (auto split: prod.splits)
    with False ne show ?thesis by simp
  qed
qed

text \<open>
  C3. Take the query result with its column names uppercased and trimmed. If it is
  empty, or has no column \<^verbatim>\<open>DATE\<close>, or every cell of each column \<^verbatim>\<open>DATE\<close> is missing
  after parsing, then \<^verbatim>\<open>get_valuation_summary_with_llm_graph\<close> returns a result with
  status \<^verbatim>\<open>"failed"\<close> and the message of the error that occurred, no LLM call is made
  and no chart is saved, and \<^verbatim>\<open>get_ai_analysis_with_graph\<close> fails with the same message
  without any LLM call either.
\<close>

theorem fetch_failure_stops_pipeline:
  assumes "df = rename sql_result"
    and "empty_df df \<or> ''DATE'' \<notin> set (columns df)
         \<or> (\<forall>p \<in> set df. fst p = ''DATE'' \<longrightarrow> isnull_all (to_datetime_coerce parse (snd p)))"
  shows "\<exists>e. get_valuation_summary_with_llm_graph parse invoke sql_result model_name = (Failed e, [])
      \<and> status (Failed e) = ''failed''
      \<and> e = (if empty_df df then ''No data returned from Snowflake. Ensure the table contains data.''
              else if ''DATE'' \<notin> set (columns df) then ''The 'DATE' column is missing from the data.''
              else if length (filter (\<lambda>(name, col). name = ''DATE'') df) = 1
                then ''The 'DATE' column could not be parsed as datetime.''
              else ''cannot assemble with duplicate keys'')
      \<and> get_ai_analysis_with_graph parse invoke sql_result model_name = (AnalysisFailed e, [])"
  using fetch_Inl [OF assms]
  by (simp add: get_valuation_summary_with_llm_graph_def get_ai_analysis_with_graph_def)

theorem fetch_failure_stops_pipeline_witness:
  "get_ai_analysis_with_graph (map_of []) (\<lambda>llm prompt. Content ''Type: line'')
       [(''date'', []), (''pe_ratio'', [])] ''gemini-2.0-flash'' =
     (AnalysisFailed ''No data returned from Snowflake. Ensure the table contains data.'', [])
   \<and> get_ai_analysis_with_graph (map_of []) (\<lambda>llm prompt. Content ''Type: line'')
       [(''day'', [Str ''2024-01-01'']), (''pe_ratio'', [Num 5])] ''gemini-2.0-flash'' =
     (AnalysisFailed ''The 'DATE' column is missing from the data.'', [])
   \<and> get_ai_analysis_with_graph (map_of []) (\<lambda>llm prompt. Content ''Type: line'')
       [('' date '', [Str ''null'', NaN]), (''pe_ratio'', [Num 5, Num 7])] ''gemini-2.0-flash'' =
     (AnalysisFailed ''The 'DATE' column could not be parsed as datetime.'', [])"
  using fetch_failure_stops_pipeline [of "[(''DATE'', []), (''PE_RATIO'', [])]"
      "[(''date'', []), (''pe_ratio'', [])]" "map_of []" "\<lambda>llm prompt. Content ''Type: line''"
      "''gemini-2.0-flash''"]
    fetch_failure_stops_pipeline [of "[(''DAY'', [Str ''2024-01-01'']), (''PE_RATIO'', [Num 5])]"
      "[(''day'', [Str ''2024-01-01'']), (''pe_ratio'', [Num 5])]" "map_of []"
      "\<lambda>llm prompt. Content ''Type: line''" "''gemini-2.0-flash''"]
    fetch_failure_stops_pipeline [of "[(''DATE'', [Str ''null'', NaN]), (''PE_RATIO'', [Num 5, Num 7])]"
      "[('' date '', [Str ''null'', NaN]), (''pe_ratio'', [Num 5, Num 7])]" "map_of []"
      "\<lambda>llm prompt. Content ''Type: line''" "''gemini-2.0-flash''"]
  by (simp add: pipeline_eval columns_def string_eval)

text \<open>
  C8. When the data are fetched and \<^verbatim>\<open>get_graph_specs_from_llm\<close> returns the empty
  mapping, the pipeline renders with the fixed default specification, whose
  \<^verbatim>\<open>Type\<close> is \<^verbatim>\<open>"line"\<close>: either the rendering fails and so does the pipeline, or the
  pipeline succeeds with the default specification and the chart it saved is a line
  plot. No chart saved in such a run is a stacked-area plot.
\<close>

theorem default_specs_give_line_plot:
  assumes "fetch parse sql_result = Inr df"
    and "get_graph_specs_from_llm invoke df model_name = ([], events)"
  shows "map_of default_specs ''Type'' = Some ''line''
     \<and> (case create_graph_from_llm_specs parse df default_specs of
           None \<Rightarrow>
             get_valuation_summary_with_llm_graph parse invoke sql_result model_name =
               (Failed ''Failed to create graph from LLM specifications.'', events)
         | Some chart \<Rightarrow>
             get_valuation_summary_with_llm_graph parse invoke sql_result model_name =
               (Success df ''llm_generated_graph.png'' default_specs, events @ [SaveFig chart])
             \<and> chart_plot chart = LinePlot)
     \<and> (\<forall>chart. SaveFig chart \<in> set (snd (get_valuation_summary_with_llm_graph parse invoke
            sql_result model_name)) \<longrightarrow> chart_plot chart = LinePlot)"
proof -
  have type: "map_of default_specs ''Type'' = Some ''line''" by (simp add: default_specs_def)
  have line: "lower ''line'' \<noteq> ''stacked''" by (simp add: lower_def lower_char_def)
  have ev: "\<forall>chart. SaveFig chart \<notin> set events"
    using assms(2) by (auto simp: get_graph_specs_from_llm_def Let_def)
  show ?thesis
  proof (cases "create_graph_from_llm_specs parse df default_specs")
    case None
    with assms type ev show ?thesis
      by (simp add: get_valuation_summary_with_llm_graph_def)
  next
    case (Some chart)
    from chart_of_specs [OF Some] type line have "chart_plot chart = LinePlot"
      by (simp add: get_def)
    with Some assms type ev show ?thesis
      by (simp add: get_valuation_summary_with_llm_graph_def)
  qed
qed

theorem default_specs_give_line_plot_witness:
  "get_valuation_summary_with_llm_graph (map_of [(''2024-01-01'', 1), (''2024-01-02'', 2)])
       (\<lambda>llm prompt. Raises ''timeout'')
       [(''date'', [Str ''2024-01-01'', Str ''2024-01-02'']), (''pe_ratio'', [Num 5, Num 7])]
       ''gemini-2.0-flash'' =
     (Success [(''DATE'', [Num 1, Num 2]), (''PE_RATIO'', [Num 5, Num 7])]
        ''llm_generated_graph.png'' default_specs,
      [Invoke (ChatGoogleGenerativeAI ''gemini-2.0-flash'')
         (GraphSpecPrompt [(''DATE'', [Num 1, Num 2]), (''PE_RATIO'', [Num 5, Num 7])]),
       SaveFig \<lparr>chart_plot = LinePlot, chart_title = ''Default Graph (Normalized)'',
         chart_xlabel = ''Date'', chart_ylabel = ''Value'', chart_x = [Num 1, Num 2],
         chart_series = [(''PE_RATIO'', [Num 0, Num 1])]\<rparr>])"
  using default_specs_give_line_plot [of "map_of [(''2024-01-01'', 1), (''2024-01-02'', 2)]"
      "[(''date'', [Str ''2024-01-01'', Str ''2024-01-02'']), (''pe_ratio'', [Num 5, Num 7])]"
      "[(''DATE'', [Num 1, Num 2]), (''PE_RATIO'', [Num 5, Num 7])]"
      "\<lambda>llm prompt. Raises ''timeout''" "''gemini-2.0-flash''"
      "[Invoke (ChatGoogleGenerativeAI ''gemini-2.0-flash'')
         (GraphSpecPrompt [(''DATE'', [Num 1, Num 2]), (''PE_RATIO'', [Num 5, Num 7])])]"]
  by (simp add: pipeline_eval frame_eval string_eval)

end
